theory Spec2Isabelle
  imports Main
begin

section \<open>The host environment\<close>

text \<open>
  The provider of \<^verbatim>\<open>ThemeProvider\<close> talks to three host objects: \<^verbatim>\<open>localStorage\<close>,
  the media query \<^verbatim>\<open>(prefers-color-scheme: dark)\<close> and the class list of
  \<^verbatim>\<open>document.documentElement\<close>. They are the fields of one record that every operation
  takes and returns.

  The TypeScript type \<^verbatim>\<open>Theme\<close> comes from \<^verbatim>\<open>./types\<close>. Types are erased when the program
  runs: \<^verbatim>\<open>localStorage.getItem(THEME_KEY) as Theme\<close> is the string (or null) that the
  store holds, whatever it is. So a theme at run time is a string.

  Reading the store is taken to succeed: \<^verbatim>\<open>getItem\<close> returns. Writing it may fail: the
  host refuses a write that would exceed the quota of the origin (a full store, or a
  store with no quota at all), and \<^verbatim>\<open>quotaExceeded h k v\<close> says whether it refuses the
  value \<open>v\<close> under the key \<open>k\<close>. Strings are lists of characters, compared as \<^verbatim>\<open>===\<close>
  compares them.
\<close>

type_synonym Theme = string

text \<open>
  Modelled from the spec: the type \<^verbatim>\<open>Theme\<close> of \<^verbatim>\<open>./types\<close>, "an enumerated value, one
  of {light, dark}". The predicate says that a run-time string is one of its two values.
\<close>

definition isTheme :: "string \<Rightarrow> bool" where
  "isTheme s = (s = ''light'' \<or> s = ''dark'')"

definition THEME_KEY :: string where
  "THEME_KEY = ''theme''"

record Host =
  localStorage :: "string \<rightharpoonup> string"
  prefersDark :: bool
  classList :: "string list"
  quotaExceeded :: "string \<Rightarrow> string \<Rightarrow> bool"

text \<open>The exceptions that the host calls of the provider can throw.\<close>

datatype DOMException = SyntaxError | InvalidCharacterError | QuotaExceededError

text \<open>\<^verbatim>\<open>localStorage.getItem(k)\<close>: the stored string, or null.\<close>

definition getItem :: "string \<Rightarrow> Host \<Rightarrow> string option" where
  "getItem k h = localStorage h k"

text \<open>
  \<^verbatim>\<open>localStorage.setItem(k, v)\<close>: throws a \<^verbatim>\<open>QuotaExceededError\<close> and leaves the store as
  it is when the host refuses the write, and stores the value otherwise.
\<close>

definition setItem :: "string \<Rightarrow> string \<Rightarrow> Host \<Rightarrow> DOMException + Host" where
  "setItem k v h =
     (if quotaExceeded h k v then Inl QuotaExceededError
      else Inr (h\<lparr>localStorage := (localStorage h)(k \<mapsto> v)\<rparr>))"

text \<open>\<^verbatim>\<open>globalThis.matchMedia('(prefers-color-scheme: dark)').matches\<close>.\<close>

definition matchMedia_dark :: "Host \<Rightarrow> bool" where
  "matchMedia_dark h = prefersDark h"

text \<open>
  JavaScript's truthiness of a value of type \<^verbatim>\<open>string | null\<close>: null and the empty
  string are falsy, every other string is truthy.
\<close>

fun truthy :: "string option \<Rightarrow> bool" where
  "truthy None = False"
| "truthy (Some s) = (s \<noteq> [])"

section \<open>The initial theme\<close>

text \<open>
  The lazy initializer of \<^verbatim>\<open>useState<Theme>\<close>:
  \<^verbatim>\<open>
    const savedTheme = localStorage.getItem(THEME_KEY) as Theme
    if (savedTheme) return savedTheme
    return globalThis.matchMedia('(prefers-color-scheme: dark)').matches ? 'dark' : 'light'
  \<close>
\<close>

definition initialTheme :: "Host \<Rightarrow> Theme" where
  "initialTheme h =
     (case getItem THEME_KEY h of
        Some savedTheme \<Rightarrow>
          if truthy (Some savedTheme) then savedTheme
          else if matchMedia_dark h then ''dark'' else ''light''
      | None \<Rightarrow> if matchMedia_dark h then ''dark'' else ''light'')"

section \<open>The two ways the theme changes\<close>

text \<open>
  The updater that \<^verbatim>\<open>toggleTheme\<close> hands to \<^verbatim>\<open>setTheme\<close>:
  \<^verbatim>\<open>prev => (prev === 'light' ? 'dark' : 'light')\<close>.
\<close>

definition toggleUpdater :: "Theme \<Rightarrow> Theme" where
  "toggleUpdater prev = (if prev = ''light'' then ''dark'' else ''light'')"

text \<open>A \<^verbatim>\<open>StorageEvent\<close>: both fields are \<^verbatim>\<open>string | null\<close>.\<close>

record StorageEvent =
  key :: "string option"
  newValue :: "string option"

text \<open>
  \<^verbatim>\<open>handleStorageChange\<close>, as the theme it leaves in the state: \<^verbatim>\<open>setTheme(e.newValue)\<close>
  when the test passes, nothing otherwise.
\<close>

definition handleStorageChange :: "StorageEvent \<Rightarrow> Theme \<Rightarrow> Theme" where
  "handleStorageChange e prev =
     (if key e = Some THEME_KEY \<and> (newValue e = Some ''light'' \<or> newValue e = Some ''dark'')
      then (case newValue e of Some v \<Rightarrow> v | None \<Rightarrow> prev)
      else prev)"

section \<open>The context value\<close>

text \<open>
  \<^verbatim>\<open>interface ThemeContextType { theme: Theme; isDark: boolean; toggleTheme: () => void }\<close>.
  The function is a heap object; the field holds its address.
\<close>

type_synonym addr = nat

record ThemeContextType =
  theme :: Theme
  isDark :: bool
  toggleTheme :: addr

text \<open>
  The factory of \<^verbatim>\<open>useMemo\<close>:
  \<^verbatim>\<open>() => ({ theme, isDark: theme === 'dark', toggleTheme })\<close>.
\<close>

definition contextValue :: "Theme \<Rightarrow> addr \<Rightarrow> ThemeContextType" where
  "contextValue t tg = \<lparr>theme = t, isDark = (t = ''dark''), toggleTheme = tg\<rparr>"

section \<open>The layout effect\<close>

text \<open>
  The class list of the root element is a \<^verbatim>\<open>DOMTokenList\<close>: an ordered set of tokens.
  \<^verbatim>\<open>remove\<close> takes the given tokens out; \<^verbatim>\<open>add\<close> throws a \<^verbatim>\<open>SyntaxError\<close> on the empty
  token and an \<^verbatim>\<open>InvalidCharacterError\<close> on a token with ASCII whitespace, and otherwise
  appends the token unless it is there already.
\<close>

definition ascii_whitespace :: "char \<Rightarrow> bool" where
  "ascii_whitespace c =
     (c = CHR 0x09 \<or> c = CHR 0x0A \<or> c = CHR 0x0C \<or> c = CHR 0x0D \<or> c = CHR '' '')"

definition classList_remove :: "string list \<Rightarrow> Host \<Rightarrow> Host" where
  "classList_remove toks h = h\<lparr>classList := filter (\<lambda>c. c \<notin> set toks) (classList h)\<rparr>"

definition classList_add :: "string \<Rightarrow> Host \<Rightarrow> DOMException + Host" where
  "classList_add tok h =
     (if tok = [] then Inl SyntaxError
      else if list_ex ascii_whitespace tok then Inl InvalidCharacterError
      else Inr (h\<lparr>classList :=
                  (if tok \<in> set (classList h) then classList h else classList h @ [tok])\<rparr>))"

text \<open>
  The body of \<^verbatim>\<open>useLayoutEffect\<close>, three host calls in the order of the source:
  \<^verbatim>\<open>
    root.classList.remove('light', 'dark')
    root.classList.add(theme)
    localStorage.setItem(THEME_KEY, theme)
  \<close>
  None of the calls is guarded. An exception ends the effect where it is thrown: the
  result is the host as the calls before it have left it, and the exception, if any.
\<close>

definition layoutEffect :: "Theme \<Rightarrow> Host \<Rightarrow> Host \<times> DOMException option" where
  "layoutEffect t h =
     (let h1 = classList_remove [''light'', ''dark''] h in
      case classList_add t h1 of
        Inl e \<Rightarrow> (h1, Some e)
      | Inr h2 \<Rightarrow>
          (case setItem THEME_KEY t h2 of
             Inl e \<Rightarrow> (h2, Some e)
           | Inr h3 \<Rightarrow> (h3, None)))"

section \<open>The provider as a state machine\<close>

text \<open>
  The state of a mounted provider is the theme held by \<^verbatim>\<open>useState\<close> and the host. The
  theme is set by the toggle or by a storage event. The layout effect has the dependency
  list \<^verbatim>\<open>[theme]\<close>: React runs it after the first render, and after a render in which
  the theme differs from the one of the render before. An exception of the effect is
  not caught by the provider: the step ends with it.
\<close>

record Provider =
  themeState :: Theme
  hostState :: Host

datatype Action = Toggle | StorageChange StorageEvent

fun dispatch :: "Action \<Rightarrow> Theme \<Rightarrow> Theme" where
  "dispatch Toggle prev = toggleUpdater prev"
| "dispatch (StorageChange e) prev = handleStorageChange e prev"

definition mount :: "Host \<Rightarrow> DOMException + Provider" where
  "mount h =
     (case layoutEffect (initialTheme h) h of
        (h', Some e) \<Rightarrow> Inl e
      | (h', None) \<Rightarrow> Inr \<lparr>themeState = initialTheme h, hostState = h'\<rparr>)"

definition step :: "Action \<Rightarrow> Provider \<Rightarrow> DOMException + Provider" where
  "step a p =
     (let t = dispatch a (themeState p) in
      if t = themeState p then Inr p
      else (case layoutEffect t (hostState p) of
              (h', Some e) \<Rightarrow> Inl e
            | (h', None) \<Rightarrow> Inr \<lparr>themeState = t, hostState = h'\<rparr>))"

section \<open>Rendering: the memoised callback and context value\<close>

text \<open>
  Reference identity is a matter of the objects that a render creates. A fiber holds
  the heap of these objects and the two memo cells of the component. React's rule for
  both hooks: on the first render the cell is filled; on a later render the cached
  value is returned when every dependency is the same as before (\<^verbatim>\<open>Object.is\<close>: for
  strings equality of the strings, for objects equality of the addresses), and the cell
  is refilled otherwise.
\<close>

datatype JSObject = ToggleThemeFn | ContextObject ThemeContextType

datatype JSValue = Str string | Ref addr

record Fiber =
  objects :: "addr \<rightharpoonup> JSObject"
  fresh :: addr
  callbackHook :: "(addr \<times> JSValue list) option"
  memoHook :: "(addr \<times> JSValue list) option"

definition mountFiber :: Fiber where
  "mountFiber = \<lparr>objects = Map.empty, fresh = 0, callbackHook = None, memoHook = None\<rparr>"

definition alloc :: "JSObject \<Rightarrow> Fiber \<Rightarrow> addr \<times> Fiber" where
  "alloc ob f = (fresh f, f\<lparr>objects := (objects f)(fresh f \<mapsto> ob), fresh := Suc (fresh f)\<rparr>)"

text \<open>\<^verbatim>\<open>useCallback(fn, deps)\<close>, for the function object at address \<open>fn\<close>.\<close>

definition useCallback :: "addr \<Rightarrow> JSValue list \<Rightarrow> Fiber \<Rightarrow> addr \<times> Fiber" where
  "useCallback fn deps f =
     (case callbackHook f of
        Some (prevFn, prevDeps) \<Rightarrow>
          if deps = prevDeps then (prevFn, f) else (fn, f\<lparr>callbackHook := Some (fn, deps)\<rparr>)
      | None \<Rightarrow> (fn, f\<lparr>callbackHook := Some (fn, deps)\<rparr>))"

text \<open>
  \<^verbatim>\<open>useMemo(factory, deps)\<close>, for a factory that returns a new object \<open>ob\<close>: the object
  is allocated only when the factory is called.
\<close>

definition useMemo :: "JSObject \<Rightarrow> JSValue list \<Rightarrow> Fiber \<Rightarrow> addr \<times> Fiber" where
  "useMemo ob deps f =
     (case memoHook f of
        Some (prevValue, prevDeps) \<Rightarrow>
          if deps = prevDeps then (prevValue, f)
          else (let (v, f') = alloc ob f in (v, f'\<lparr>memoHook := Some (v, deps)\<rparr>))
      | None \<Rightarrow> (let (v, f') = alloc ob f in (v, f'\<lparr>memoHook := Some (v, deps)\<rparr>)))"

text \<open>
  One render of \<^verbatim>\<open>ThemeProvider\<close> with the theme \<open>t\<close>: the arrow function given to
  \<^verbatim>\<open>useCallback\<close> is a new object in every render, \<^verbatim>\<open>useCallback(..., [])\<close> chooses
  between it and the cached one, and \<^verbatim>\<open>useMemo(..., [theme, toggleTheme])\<close> gives the
  value passed to \<^verbatim>\<open>ThemeContext.Provider\<close>.
\<close>

definition render :: "Theme \<Rightarrow> Fiber \<Rightarrow> addr \<times> Fiber" where
  "render t f =
     (let (fn, f1) = alloc ToggleThemeFn f;
          (tg, f2) = useCallback fn [] f1
      in useMemo (ContextObject (contextValue t tg)) [Str t, Ref tg] f2)"

text \<open>The fiber after the renders of a history of themes, oldest first.\<close>

definition fiberAfter :: "Theme list \<Rightarrow> Fiber" where
  "fiberAfter ts = foldl (\<lambda>f t. snd (render t f)) mountFiber ts"

text \<open>
  The invariant of a fiber that has been rendered at least once, last with the theme
  \<open>t\<close> and the context value at \<open>v\<close>: both memo cells are filled, the callback cell
  holds the function object of the first render, the heap holds both objects, and no
  address from \<open>fresh\<close> on is in use.
\<close>

definition memoised :: "Fiber \<Rightarrow> Theme \<Rightarrow> addr \<Rightarrow> bool" where
  "memoised f t v =
     (callbackHook f = Some (fresh mountFiber, []) \<and>
      memoHook f = Some (v, [Str t, Ref (fresh mountFiber)]) \<and>
      objects f (fresh mountFiber) = Some ToggleThemeFn \<and>
      objects f v = Some (ContextObject (contextValue t (fresh mountFiber))) \<and>
      (\<forall>a. fresh f \<le> a \<longrightarrow> objects f a = None))"

section \<open>Properties of the resolver, the toggle and the listener\<close>

lemma initialTheme_saved:
  "localStorage h THEME_KEY = Some s \<Longrightarrow> s \<noteq> [] \<Longrightarrow> initialTheme h = s"
  by (simp add: initialTheme_def getItem_def)

lemma initialTheme_no_preference:
  "localStorage h THEME_KEY = None \<or> localStorage h THEME_KEY = Some [] \<Longrightarrow>
   initialTheme h = (if prefersDark h then ''dark'' else ''light'')"
  by (auto simp: initialTheme_def getItem_def matchMedia_dark_def)

lemma isTheme_toggleUpdater: "isTheme (toggleUpdater t)"
  by (simp add: isTheme_def toggleUpdater_def)

lemma isTheme_handleStorageChange:
  "handleStorageChange e t \<noteq> t \<Longrightarrow> isTheme (handleStorageChange e t)"
  by (auto simp: handleStorageChange_def isTheme_def split: if_splits)



text \<open>
  C7. When the store holds nothing under the theme key, the initial theme is dark if the
  host prefers dark and light if it does not.
\<close>

theorem initialTheme_unsaved:
  "localStorage h THEME_KEY = None \<Longrightarrow>
   initialTheme h = (if prefersDark h then ''dark'' else ''light'')"
  by (simp add: initialTheme_def getItem_def matchMedia_dark_def)

theorem initialTheme_unsaved_witness:
  "localStorage \<lparr>localStorage = Map.empty, prefersDark = True, classList = [], quotaExceeded = (\<lambda>k v. False)\<rparr> THEME_KEY = None \<and>
   initialTheme \<lparr>localStorage = Map.empty, prefersDark = True, classList = [], quotaExceeded = (\<lambda>k v. False)\<rparr> = ''dark'' \<and>
   initialTheme \<lparr>localStorage = [''lang'' \<mapsto> ''en''], prefersDark = False, classList = [], quotaExceeded = (\<lambda>k v. False)\<rparr>
     = ''light''"
  using initialTheme_unsaved
    [of "\<lparr>localStorage = Map.empty, prefersDark = True, classList = [], quotaExceeded = (\<lambda>k v. False)\<rparr>"]
    initialTheme_unsaved
    [of "\<lparr>localStorage = [''lang'' \<mapsto> ''en''], prefersDark = False, classList = [], quotaExceeded = (\<lambda>k v. False)\<rparr>"]
  by (simp add: THEME_KEY_def)

text \<open>
  C10. The resolver treats exactly the absent value and the empty string as "no
  preference". Every non-empty stored string, also one that is neither "light" nor
  "dark", is returned as the initial theme; the prefers-dark signal is not consulted.
\<close>

theorem initialTheme_nonempty_string:
  "(localStorage h THEME_KEY = None \<or> localStorage h THEME_KEY = Some [] \<longrightarrow>
      initialTheme h = (if prefersDark h then ''dark'' else ''light'')) \<and>
   (localStorage h THEME_KEY = Some s \<and> s \<noteq> [] \<longrightarrow> initialTheme h = s)"
  by (auto simp: initialTheme_def getItem_def matchMedia_dark_def)

theorem initialTheme_nonempty_string_witness:
  "localStorage \<lparr>localStorage = [THEME_KEY \<mapsto> ''sepia''], prefersDark = True, classList = [], quotaExceeded = (\<lambda>k v. False)\<rparr>
     THEME_KEY = Some ''sepia'' \<and>
   \<not> isTheme ''sepia'' \<and>
   initialTheme \<lparr>localStorage = [THEME_KEY \<mapsto> ''sepia''], prefersDark = True, classList = [], quotaExceeded = (\<lambda>k v. False)\<rparr>
     = ''sepia'' \<and>
   initialTheme \<lparr>localStorage = [THEME_KEY \<mapsto> []], prefersDark = True, classList = [], quotaExceeded = (\<lambda>k v. False)\<rparr>
     = ''dark''"
  using initialTheme_nonempty_string
    [of "\<lparr>localStorage = [THEME_KEY \<mapsto> ''sepia''], prefersDark = True, classList = [], quotaExceeded = (\<lambda>k v. False)\<rparr>"
        "''sepia''"]
    initialTheme_nonempty_string
    [of "\<lparr>localStorage = [THEME_KEY \<mapsto> []], prefersDark = True, classList = [], quotaExceeded = (\<lambda>k v. False)\<rparr>"]
  by (simp add: isTheme_def)

section \<open>The layout effect and the steps of the provider\<close>

text \<open>
  The effect for one of the two themes: the class list loses both markers and gains the
  marker of the theme at its end; then the store is written, unless the host refuses.
\<close>

lemma layoutEffect_isTheme:
  "isTheme t \<Longrightarrow>
   layoutEffect t h =
     (if quotaExceeded h THEME_KEY t
      then (h\<lparr>classList := filter (\<lambda>c. c \<noteq> ''light'' \<and> c \<noteq> ''dark'') (classList h) @ [t]\<rparr>,
            Some QuotaExceededError)
      else (h\<lparr>classList := filter (\<lambda>c. c \<noteq> ''light'' \<and> c \<noteq> ''dark'') (classList h) @ [t],
              localStorage := (localStorage h)(THEME_KEY \<mapsto> t)\<rparr>,
            None))"
  by (auto simp: layoutEffect_def classList_add_def classList_remove_def isTheme_def
      ascii_whitespace_def setItem_def)

lemma markers_after_effect:
  "isTheme t \<Longrightarrow>
   (''light'' \<in> set (filter (\<lambda>c. c \<noteq> ''light'' \<and> c \<noteq> ''dark'') cl @ [t])) = (t = ''light'') \<and>
   (''dark'' \<in> set (filter (\<lambda>c. c \<noteq> ''light'' \<and> c \<noteq> ''dark'') cl @ [t])) = (t = ''dark'')"
  by (auto simp: isTheme_def)

lemma isTheme_dispatch:
  "dispatch a t \<noteq> t \<Longrightarrow> isTheme (dispatch a t)"
  by (cases a) (auto simp: isTheme_toggleUpdater isTheme_handleStorageChange)

text \<open>
  When the stored value resolves to one of the two themes and the host accepts the
  write, mounting applies its marker and writes it back.
\<close>

lemma mount_isTheme:
  assumes "isTheme (initialTheme h)" "\<not> quotaExceeded h THEME_KEY (initialTheme h)"
  shows "\<exists>p. mount h = Inr p \<and> themeState p = initialTheme h \<and>
           localStorage (hostState p) THEME_KEY = Some (initialTheme h) \<and>
           (''light'' \<in> set (classList (hostState p))) = (initialTheme h = ''light'') \<and>
           (''dark'' \<in> set (classList (hostState p))) = (initialTheme h = ''dark'')"
  using assms by (auto simp: mount_def layoutEffect_isTheme isTheme_def)

text \<open>
  C3. A storage event for the theme key with the new value "dark" sets the theme to
  dark whatever it was, and likewise for "light": the step ends with that theme, unless
  the host refuses the write of the layout effect. An event for another key, or with a
  new value that is neither (null included), leaves the theme, and the whole state of
  the provider, as it was, and ends in no error.
\<close>

theorem storage_notification:
  "(key e = Some THEME_KEY \<and> newValue e = Some ''dark'' \<longrightarrow>
      handleStorageChange e t = ''dark'' \<and>
      ((\<exists>p'. step (StorageChange e) p = Inr p' \<and> themeState p' = ''dark'') \<or>
       (quotaExceeded (hostState p) THEME_KEY ''dark'' \<and>
        step (StorageChange e) p = Inl QuotaExceededError))) \<and>
   (key e = Some THEME_KEY \<and> newValue e = Some ''light'' \<longrightarrow>
      handleStorageChange e t = ''light'' \<and>
      ((\<exists>p'. step (StorageChange e) p = Inr p' \<and> themeState p' = ''light'') \<or>
       (quotaExceeded (hostState p) THEME_KEY ''light'' \<and>
        step (StorageChange e) p = Inl QuotaExceededError))) \<and>
   (key e \<noteq> Some THEME_KEY \<or> (newValue e \<noteq> Some ''light'' \<and> newValue e \<noteq> Some ''dark'') \<longrightarrow>
      handleStorageChange e t = t \<and> step (StorageChange e) p = Inr p)"
proof -
  have valid:
    "(\<exists>p'. step (StorageChange e) p = Inr p' \<and> themeState p' = v) \<or>
     (quotaExceeded (hostState p) THEME_KEY v \<and>
      step (StorageChange e) p = Inl QuotaExceededError)"
    if "key e = Some THEME_KEY" "newValue e = Some v" "isTheme v" for v
  proof -
    have d: "dispatch (StorageChange e) (themeState p) = v"
      using that by (auto simp: handleStorageChange_def isTheme_def)
    show ?thesis
    proof (cases "v = themeState p")
      case True
      then show ?thesis using d by (simp add: step_def)
    next
      case False
      then show ?thesis using d layoutEffect_isTheme[OF that(3), of "hostState p"]
        by (simp add: step_def)
    qed
  qed
  have ignored: "step (StorageChange e) p = Inr p"
    if "key e \<noteq> Some THEME_KEY \<or> (newValue e \<noteq> Some ''light'' \<and> newValue e \<noteq> Some ''dark'')"
    using that by (auto simp: step_def handleStorageChange_def)
  have hd: "handleStorageChange e t = v"
    if "key e = Some THEME_KEY" "newValue e = Some v" "isTheme v" for v
    using that by (auto simp: handleStorageChange_def isTheme_def)
  have un: "handleStorageChange e t = t"
    if "key e \<noteq> Some THEME_KEY \<or> (newValue e \<noteq> Some ''light'' \<and> newValue e \<noteq> Some ''dark'')"
    using that by (auto simp: handleStorageChange_def)
  have dk: "isTheme ''dark''" and lt: "isTheme ''light''" by (simp_all add: isTheme_def)
  show ?thesis
    using valid[of "''dark''"] valid[of "''light''"] hd[of "''dark''"] hd[of "''light''"]
      ignored un dk lt
    by blast
qed

theorem storage_notification_witness:
  "key \<lparr>key = Some ''theme'', newValue = Some ''dark''\<rparr> = Some THEME_KEY \<and>
   handleStorageChange \<lparr>key = Some ''theme'', newValue = Some ''dark''\<rparr> ''light'' = ''dark'' \<and>
   handleStorageChange \<lparr>key = Some ''theme'', newValue = Some ''light''\<rparr> ''dark'' = ''light'' \<and>
   handleStorageChange \<lparr>key = Some ''theme'', newValue = None\<rparr> ''dark'' = ''dark'' \<and>
   handleStorageChange \<lparr>key = Some ''lang'', newValue = Some ''light''\<rparr> ''dark'' = ''dark''"
  using storage_notification
      [of "\<lparr>key = Some ''theme'', newValue = Some ''dark''\<rparr>" "''light''"]
    storage_notification
      [of "\<lparr>key = Some ''theme'', newValue = Some ''light''\<rparr>" "''dark''"]
    storage_notification
      [of "\<lparr>key = Some ''theme'', newValue = None\<rparr>" "''dark''"]
    storage_notification
      [of "\<lparr>key = Some ''lang'', newValue = Some ''light''\<rparr>" "''dark''"]
  by (simp add: THEME_KEY_def)

text \<open>
  C4. After a step that changes the theme, the new theme is one of the two themes and
  exactly one of the two markers is in the class list of the root element, the one of
  the new theme: the effect takes both markers out and puts the new one at the end. It
  writes the store after that. When the host accepts the write, the step ends with the
  new theme stored under the theme key. When the host refuses it, the step ends with
  the \<open>QuotaExceededError\<close>, the class list already changed and the store as it was.
\<close>

theorem theme_change_synchronised:
  assumes "dispatch a (themeState p) \<noteq> themeState p"
  shows "isTheme (dispatch a (themeState p)) \<and>
    (\<not> quotaExceeded (hostState p) THEME_KEY (dispatch a (themeState p)) \<longrightarrow>
       (\<exists>p'. step a p = Inr p' \<and>
          themeState p' = dispatch a (themeState p) \<and>
          localStorage (hostState p') THEME_KEY = Some (themeState p') \<and>
          classList (hostState p') =
            filter (\<lambda>c. c \<noteq> ''light'' \<and> c \<noteq> ''dark'') (classList (hostState p))
              @ [themeState p'] \<and>
          (''light'' \<in> set (classList (hostState p'))) = (themeState p' = ''light'') \<and>
          (''dark'' \<in> set (classList (hostState p'))) = (themeState p' = ''dark''))) \<and>
    (quotaExceeded (hostState p) THEME_KEY (dispatch a (themeState p)) \<longrightarrow>
       step a p = Inl QuotaExceededError \<and>
       (\<exists>h. layoutEffect (dispatch a (themeState p)) (hostState p)
              = (h, Some QuotaExceededError) \<and>
          localStorage h = localStorage (hostState p) \<and>
          classList h =
            filter (\<lambda>c. c \<noteq> ''light'' \<and> c \<noteq> ''dark'') (classList (hostState p))
              @ [dispatch a (themeState p)] \<and>
          (''light'' \<in> set (classList h)) = (dispatch a (themeState p) = ''light'') \<and>
          (''dark'' \<in> set (classList h)) = (dispatch a (themeState p) = ''dark'')))"
proof -
  define t where "t = dispatch a (themeState p)"
  define cl where
    "cl = filter (\<lambda>c. c \<noteq> ''light'' \<and> c \<noteq> ''dark'') (classList (hostState p)) @ [t]"
  have th: "isTheme t" using assms isTheme_dispatch t_def by simp
  have ch: "t \<noteq> themeState p" using assms t_def by simp
  have mk: "(''light'' \<in> set cl) = (t = ''light'')" "(''dark'' \<in> set cl) = (t = ''dark'')"
    using markers_after_effect[OF th, of "classList (hostState p)"] by (simp_all add: cl_def)
  have eff: "layoutEffect t (hostState p) =
     (if quotaExceeded (hostState p) THEME_KEY t
      then ((hostState p)\<lparr>classList := cl\<rparr>, Some QuotaExceededError)
      else ((hostState p)\<lparr>classList := cl,
              localStorage := (localStorage (hostState p))(THEME_KEY \<mapsto> t)\<rparr>, None))"
    using layoutEffect_isTheme[OF th, of "hostState p"] by (simp add: cl_def)
  have accepted:
    "\<exists>p'. step a p = Inr p' \<and> themeState p' = t \<and>
       localStorage (hostState p') THEME_KEY = Some (themeState p') \<and>
       classList (hostState p') = cl \<and>
       (''light'' \<in> set (classList (hostState p'))) = (themeState p' = ''light'') \<and>
       (''dark'' \<in> set (classList (hostState p'))) = (themeState p' = ''dark'')"
    if "\<not> quotaExceeded (hostState p) THEME_KEY t"
  proof -
    have "step a p = Inr \<lparr>themeState = t, hostState = (hostState p)\<lparr>classList := cl,
              localStorage := (localStorage (hostState p))(THEME_KEY \<mapsto> t)\<rparr>\<rparr>"
      using that ch eff by (simp add: step_def t_def[symmetric])
    then show ?thesis using mk by simp
  qed
  have refused:
    "step a p = Inl QuotaExceededError \<and>
     (\<exists>h. layoutEffect t (hostState p) = (h, Some QuotaExceededError) \<and>
        localStorage h = localStorage (hostState p) \<and> classList h = cl \<and>
        (''light'' \<in> set (classList h)) = (t = ''light'') \<and>
        (''dark'' \<in> set (classList h)) = (t = ''dark''))"
    if "quotaExceeded (hostState p) THEME_KEY t"
  proof -
    have "step a p = Inl QuotaExceededError"
      using that ch eff by (simp add: step_def t_def[symmetric])
    then show ?thesis using that eff mk by simp
  qed
  show ?thesis
    using th accepted refused unfolding t_def[symmetric] cl_def by blast
qed

theorem theme_change_synchronised_witness:
  "dispatch Toggle
     (themeState \<lparr>themeState = ''light'', hostState =
        \<lparr>localStorage = [THEME_KEY \<mapsto> ''light''], prefersDark = False,
         classList = [''app'', ''light''], quotaExceeded = (\<lambda>k v. False)\<rparr>\<rparr>) = ''dark'' \<and>
   (\<exists>p'. step Toggle \<lparr>themeState = ''light'', hostState =
        \<lparr>localStorage = [THEME_KEY \<mapsto> ''light''], prefersDark = False,
         classList = [''app'', ''light''], quotaExceeded = (\<lambda>k v. False)\<rparr>\<rparr> = Inr p' \<and>
      themeState p' = ''dark'' \<and>
      localStorage (hostState p') THEME_KEY = Some ''dark'' \<and>
      classList (hostState p') = [''app'', ''dark'']) \<and>
   step Toggle \<lparr>themeState = ''light'', hostState =
        \<lparr>localStorage = [THEME_KEY \<mapsto> ''light''], prefersDark = False,
         classList = [''app'', ''light''], quotaExceeded = (\<lambda>k v. True)\<rparr>\<rparr>
     = Inl QuotaExceededError"
proof -
  define p where "p = \<lparr>themeState = ''light'', hostState =
        \<lparr>localStorage = [THEME_KEY \<mapsto> ''light''], prefersDark = False,
         classList = [''app'', ''light''], quotaExceeded = (\<lambda>k v. False)\<rparr>\<rparr>"
  define q where "q = \<lparr>themeState = ''light'', hostState =
        \<lparr>localStorage = [THEME_KEY \<mapsto> ''light''], prefersDark = False,
         classList = [''app'', ''light''], quotaExceeded = (\<lambda>k v. True)\<rparr>\<rparr>"
  have d: "dispatch Toggle (themeState p) = ''dark''" "dispatch Toggle (themeState q) = ''dark''"
    by (simp_all add: p_def q_def toggleUpdater_def)
  have hp: "dispatch Toggle (themeState p) \<noteq> themeState p"
    and hq: "dispatch Toggle (themeState q) \<noteq> themeState q"
    using d by (simp_all add: p_def q_def)
  have ok: "\<not> quotaExceeded (hostState p) THEME_KEY (dispatch Toggle (themeState p))"
    by (simp add: p_def)
  have no: "quotaExceeded (hostState q) THEME_KEY (dispatch Toggle (themeState q))"
    by (simp add: q_def)
  from theme_change_synchronised[OF hp] ok d(1)
  have "\<exists>p'. step Toggle p = Inr p' \<and> themeState p' = ''dark'' \<and>
      localStorage (hostState p') THEME_KEY = Some ''dark'' \<and>
      classList (hostState p') = [''app'', ''dark'']"
    by (auto simp: p_def)
  moreover from theme_change_synchronised[OF hq] no
  have "step Toggle q = Inl QuotaExceededError" by blast
  ultimately show ?thesis using d(1) unfolding p_def q_def by simp
qed

text \<open>
  The store of this host is full with the entry "theme" = "dark": it has room for nine
  characters. The toggle changes the theme from dark to light, and the write of "light"
  is refused: the marker is "light", the stored value is still "dark", and the step
  ends with the exception.
\<close>

theorem theme_change_store_refused:
  "dispatch Toggle ''dark'' = ''light'' \<and>
   step Toggle \<lparr>themeState = ''dark'', hostState =
        \<lparr>localStorage = [THEME_KEY \<mapsto> ''dark''], prefersDark = False,
         classList = [''dark''], quotaExceeded = (\<lambda>k v. 9 < length k + length v)\<rparr>\<rparr>
     = Inl QuotaExceededError \<and>
   layoutEffect ''light''
        \<lparr>localStorage = [THEME_KEY \<mapsto> ''dark''], prefersDark = False,
         classList = [''dark''], quotaExceeded = (\<lambda>k v. 9 < length k + length v)\<rparr>
     = (\<lparr>localStorage = [THEME_KEY \<mapsto> ''dark''], prefersDark = False,
         classList = [''light''], quotaExceeded = (\<lambda>k v. 9 < length k + length v)\<rparr>,
        Some QuotaExceededError) \<and>
   \<not> quotaExceeded
        \<lparr>localStorage = [THEME_KEY \<mapsto> ''dark''], prefersDark = False,
         classList = [''dark''], quotaExceeded = (\<lambda>k v. 9 < length k + length v)\<rparr>
        THEME_KEY ''dark''"
  by (simp add: toggleUpdater_def step_def layoutEffect_def classList_remove_def
      classList_add_def ascii_whitespace_def setItem_def THEME_KEY_def Let_def)

section \<open>Reference identity of the context value\<close>

lemma render_first:
  "memoised (snd (render t mountFiber)) t (fst (render t mountFiber))"
  by (simp add: render_def alloc_def useCallback_def useMemo_def mountFiber_def memoised_def)

lemma render_same:
  assumes "memoised f t v"
  shows "render t f =
    (v, f\<lparr>objects := (objects f)(fresh f \<mapsto> ToggleThemeFn), fresh := Suc (fresh f)\<rparr>)"
  using assms
  by (simp add: render_def alloc_def useCallback_def useMemo_def memoised_def)

lemma memoised_fresh:
  assumes "memoised f t v"
  shows "v < fresh f" "fresh mountFiber < fresh f"
  using assms unfolding memoised_def
  by (metis not_le_imp_less option.distinct(1))+

lemma render_same_memoised:
  assumes "memoised f t v"
  shows "memoised (snd (render t f)) t v"
  using assms memoised_fresh[OF assms]
  by (auto simp add: render_same[OF assms]) (auto simp: memoised_def)

lemma render_changed:
  assumes "memoised f t v" "t' \<noteq> t"
  shows "fst (render t' f) = Suc (fresh f)"
    and "memoised (snd (render t' f)) t' (Suc (fresh f))"
    and "objects (snd (render t' f)) v = objects f v"
  using assms memoised_fresh[OF assms(1)]
  by (auto simp add: render_def alloc_def useCallback_def useMemo_def memoised_def)

lemma fiberAfter_snoc: "fiberAfter (ts @ [t]) = snd (render t (fiberAfter ts))"
  by (simp add: fiberAfter_def)

text \<open>Every render, the first one or a later one, leaves the fiber memoised.\<close>

lemma render_memoised:
  "memoised (snd (render t (fiberAfter ts))) t (fst (render t (fiberAfter ts)))"
proof (induction ts arbitrary: t rule: rev_induct)
  case Nil
  show ?case using render_first[of t] by (simp add: fiberAfter_def)
next
  case (snoc u us)
  let ?f = "fiberAfter (us @ [u])"
  have m: "memoised ?f u (fst (render u (fiberAfter us)))"
    using snoc.IH[of u] by (simp add: fiberAfter_snoc)
  show ?case
  proof (cases "t = u")
    case True
    then show ?thesis
      using render_same_memoised[OF m] render_same[OF m] by simp
  next
    case False
    then show ?thesis
      using render_changed(1,2)[OF m, of t] by simp
  qed
qed

text \<open>
  C9. In the context value, \<open>isDark\<close> is true exactly when the theme is dark, and the
  value has the three fields \<open>theme\<close>, \<open>isDark\<close> and \<open>toggleTheme\<close> and no other. This
  holds of the factory, and of the object that a render hands to the context provider
  after any history, cached or new.
\<close>

theorem contextValue_surface:
  "theme (contextValue t tg) = t \<and>
   isDark (contextValue t tg) = (theme (contextValue t tg) = ''dark'') \<and>
   toggleTheme (contextValue t tg) = tg \<and>
   contextValue t tg = \<lparr>theme = t, isDark = (t = ''dark''), toggleTheme = tg\<rparr> \<and>
   (\<exists>c. objects (snd (render t (fiberAfter ts))) (fst (render t (fiberAfter ts)))
          = Some (ContextObject c) \<and>
        theme c = t \<and> isDark c = (t = ''dark''))"
  using render_memoised[of t ts]
  by (simp add: contextValue_def memoised_def)

text \<open>
  Renders that follow one another with the same theme all return the context value of
  the first of them.
\<close>

lemma render_run:
  "fst (render t (fiberAfter (ts @ t # replicate n t))) = fst (render t (fiberAfter ts))"
proof (induction n)
  case 0
  have "memoised (fiberAfter (ts @ [t])) t (fst (render t (fiberAfter ts)))"
    using render_memoised[of t ts] by (simp add: fiberAfter_snoc)
  then show ?case using render_same by simp
next
  case (Suc n)
  let ?us = "ts @ t # replicate n t"
  have eq: "ts @ t # replicate (Suc n) t = ?us @ [t]"
    by (simp add: replicate_append_same)
  have "fiberAfter (ts @ t # replicate (Suc n) t) = fiberAfter (?us @ [t])"
    by (simp only: eq)
  also have "\<dots> = snd (render t (fiberAfter ?us))"
    by (rule fiberAfter_snoc)
  finally have f: "fiberAfter (ts @ t # replicate (Suc n) t) = snd (render t (fiberAfter ?us))" .
  have m: "memoised (snd (render t (fiberAfter ?us))) t (fst (render t (fiberAfter ?us)))"
    by (rule render_memoised)
  have "fst (render t (fiberAfter (ts @ t # replicate (Suc n) t)))
      = fst (render t (snd (render t (fiberAfter ?us))))"
    by (simp only: f)
  also have "\<dots> = fst (render t (fiberAfter ?us))"
    using render_same[OF m] by simp
  also have "\<dots> = fst (render t (fiberAfter ts))"
    by (rule Suc.IH)
  finally show ?case .
qed

text \<open>
  C8. The contents of the context value depend on the theme alone: after any history of
  renders, a render with the theme \<open>t\<close> gives an object with the contents
  \<open>contextValue t\<close>, whose \<open>toggleTheme\<close> is the one function object of the first render.
  By reference the value is stable as long as the theme does not change: the next
  render gives the same object (the same address) when its theme is the same, and so
  does every render of a run of renders with that theme; a render whose theme differs
  from the one before gives a newly allocated object, the earlier one left as it was.
\<close>

theorem contextValue_reference_stable:
  "let r1 = render t (fiberAfter ts); r2 = render t' (snd r1) in
     objects (snd r1) (fst r1) = Some (ContextObject (contextValue t (fresh mountFiber))) \<and>
     objects (snd r2) (fst r2) = Some (ContextObject (contextValue t' (fresh mountFiber))) \<and>
     objects (snd r2) (fst r1) = Some (ContextObject (contextValue t (fresh mountFiber))) \<and>
     objects (snd r2) (fresh mountFiber) = Some ToggleThemeFn \<and>
     (t' = t \<longrightarrow> fst r2 = fst r1) \<and>
     (t' \<noteq> t \<longrightarrow> fst r2 \<noteq> fst r1 \<and> objects (snd r1) (fst r2) = None) \<and>
     fst (render t (fiberAfter (ts @ t # replicate n t))) = fst r1"
proof -
  define v1 where "v1 = fst (render t (fiberAfter ts))"
  define f1 where "f1 = snd (render t (fiberAfter ts))"
  define v2 where "v2 = fst (render t' f1)"
  define f2 where "f2 = snd (render t' f1)"
  have m1: "memoised f1 t v1"
    unfolding f1_def v1_def by (rule render_memoised)
  have "f1 = fiberAfter (ts @ [t])"
    by (simp add: f1_def fiberAfter_snoc)
  then have m2: "memoised f2 t' v2"
    unfolding f2_def v2_def using render_memoised[of t' "ts @ [t]"] by simp
  have o1: "objects f1 v1 = Some (ContextObject (contextValue t (fresh mountFiber)))"
    using m1 by (simp add: memoised_def)
  have o2: "objects f2 v2 = Some (ContextObject (contextValue t' (fresh mountFiber)))"
    and tg: "objects f2 (fresh mountFiber) = Some ToggleThemeFn"
    using m2 by (simp_all add: memoised_def)
  have same: "v2 = v1" if "t' = t"
    using that render_same[OF m1] by (simp add: v2_def)
  have changed: "v2 \<noteq> v1 \<and> objects f1 v2 = None \<and> objects f2 v1 = objects f1 v1" if "t' \<noteq> t"
  proof -
    have "v2 = Suc (fresh f1)" "objects f2 v1 = objects f1 v1"
      using render_changed(1,3)[OF m1 that] by (simp_all add: v2_def f2_def)
    moreover have "v1 < fresh f1" by (rule memoised_fresh(1)[OF m1])
    moreover have "objects f1 (Suc (fresh f1)) = None"
      using m1 by (simp add: memoised_def)
    ultimately show ?thesis by simp
  qed
  have old: "objects f2 v1 = Some (ContextObject (contextValue t (fresh mountFiber)))"
  proof (cases "t' = t")
    case True
    then show ?thesis using same o2 by simp
  next
    case False
    then show ?thesis using changed o1 by simp
  qed
  show ?thesis
    unfolding Let_def v1_def[symmetric] f1_def[symmetric] v2_def[symmetric] f2_def[symmetric]
    using o1 o2 old tg same changed render_run[of t ts n] by (simp add: v1_def)
qed

theorem contextValue_reference_stable_witness:
  "fst (render ''light'' (snd (render ''light'' (fiberAfter [''dark''])))) =
     fst (render ''light'' (fiberAfter [''dark''])) \<and>
   fst (render ''dark'' (snd (render ''light'' (fiberAfter [''dark''])))) \<noteq>
     fst (render ''light'' (fiberAfter [''dark'']))"
  using contextValue_reference_stable [of "''light''" "[''dark'']" "''light''"]
    contextValue_reference_stable [of "''light''" "[''dark'']" "''dark''"]
  by (simp add: Let_def)

text \<open>
  Two renders with the same theme and a change of theme between them: the first render
  and the third of the history dark, light, dark. Both context values are for the theme
  dark, and they are two objects, at the addresses 1 and 5.
\<close>

theorem contextValue_recomputed_after_change:
  "fst (render ''dark'' (fiberAfter [])) = 1 \<and>
   fst (render ''dark'' (fiberAfter [''dark'', ''light''])) = 5 \<and>
   fst (render ''dark'' (fiberAfter [''dark'', ''light''])) \<noteq> fst (render ''dark'' (fiberAfter []))"
  by (simp add: fiberAfter_def render_def alloc_def useCallback_def useMemo_def mountFiber_def)

section \<open>Stored values that are not themes\<close>

text \<open>
  Once the theme is one of the two values, every step keeps it so; and a stored "light"
  or "dark" is the initial theme.
\<close>

lemma step_isTheme:
  "isTheme (themeState p) \<Longrightarrow> step a p = Inr p' \<Longrightarrow> isTheme (themeState p')"
  using isTheme_dispatch[of a "themeState p"]
  by (auto simp: step_def Let_def split: if_splits prod.splits option.splits)

lemma initialTheme_isTheme_saved:
  "localStorage h THEME_KEY = Some s \<Longrightarrow> isTheme s \<Longrightarrow> initialTheme h = s"
  by (rule initialTheme_saved) (auto simp: isTheme_def)

text \<open>
  C1. The resolver is to take the stored value only when it is present and valid, and
  the prefers-dark signal otherwise. At the stored value "Dark", with a host that does
  not prefer dark, the code returns "Dark": not a theme, and not the "light" that the
  signal gives.
\<close>

theorem initialTheme_invalid_before_signal:
  "initialTheme \<lparr>localStorage = [THEME_KEY \<mapsto> ''Dark''], prefersDark = False, classList = [], quotaExceeded = (\<lambda>k v. False)\<rparr>
     = ''Dark'' \<and>
   \<not> isTheme ''Dark'' \<and>
   initialTheme \<lparr>localStorage = Map.empty, prefersDark = False, classList = [], quotaExceeded = (\<lambda>k v. False)\<rparr> = ''light''"
  by (simp add: initialTheme_def getItem_def matchMedia_dark_def isTheme_def)

text \<open>
  C2. A malformed stored value is to fall through to the prefers-dark signal. At the
  stored value "blue" the code returns "blue" as the initial theme; and at the stored
  value "dark mode" the first layout effect ends in the exception of \<open>classList.add\<close>.
\<close>

theorem initialTheme_malformed_returned:
  "initialTheme \<lparr>localStorage = [THEME_KEY \<mapsto> ''blue''], prefersDark = True, classList = [], quotaExceeded = (\<lambda>k v. False)\<rparr>
     = ''blue'' \<and>
   \<not> isTheme ''blue'' \<and>
   mount \<lparr>localStorage = [THEME_KEY \<mapsto> ''dark mode''], prefersDark = True, classList = [], quotaExceeded = (\<lambda>k v. False)\<rparr>
     = Inl InvalidCharacterError"
  by (simp add: initialTheme_def getItem_def mount_def layoutEffect_def classList_add_def
      classList_remove_def ascii_whitespace_def isTheme_def)

text \<open>
  C6. The theme in memory is to be "light" or "dark" at all times. At the stored value
  "system" the provider mounts with the theme "system", with neither marker on the root
  element, and a storage event for another key leaves it there.
\<close>

theorem theme_outside_enumeration:
  "mount \<lparr>localStorage = [THEME_KEY \<mapsto> ''system''], prefersDark = False, classList = [''app''], quotaExceeded = (\<lambda>k v. False)\<rparr>
     = Inr \<lparr>themeState = ''system'', hostState =
         \<lparr>localStorage = [THEME_KEY \<mapsto> ''system''], prefersDark = False,
          classList = [''app'', ''system''], quotaExceeded = (\<lambda>k v. False)\<rparr>\<rparr> \<and>
   \<not> isTheme ''system'' \<and>
   step (StorageChange \<lparr>key = Some ''lang'', newValue = Some ''en''\<rparr>)
     \<lparr>themeState = ''system'', hostState =
         \<lparr>localStorage = [THEME_KEY \<mapsto> ''system''], prefersDark = False,
          classList = [''app'', ''system''], quotaExceeded = (\<lambda>k v. False)\<rparr>\<rparr>
     = Inr \<lparr>themeState = ''system'', hostState =
         \<lparr>localStorage = [THEME_KEY \<mapsto> ''system''], prefersDark = False,
          classList = [''app'', ''system''], quotaExceeded = (\<lambda>k v. False)\<rparr>\<rparr>"
  by (simp add: initialTheme_def getItem_def mount_def layoutEffect_def classList_add_def
      classList_remove_def ascii_whitespace_def isTheme_def setItem_def step_def
      handleStorageChange_def THEME_KEY_def Let_def)

end
